theory Spec2Isabelle
  imports Main "HOL-Library.Char_ord" "HOL-Library.List_Lexorder" "HOL-Library.Product_Lexorder"
    "HOL-Library.AList" "HOL-Library.Multiset"
begin

section \<open>Data model (package pak)\<close>

text \<open>
  \<^verbatim>\<open>pak.Time\<close> wraps \<^verbatim>\<open>time.Time\<close>; the manager only copies such values, so an instant is
  an integer here. File contents and strings are byte strings.
\<close>

type_synonym Time = int
type_synonym bytes = string

record Spec =
  ID :: string
  Name :: string
  Description :: string
  CurrentVersion :: string
  Updated :: Time
  Versions :: "string list"

record UpgradableSpec = Spec +
  LatestVersion :: string
  LastUpdated :: Time

record Manifest =
  ID :: string
  Name :: string
  Version :: string
  Date :: Time
  Files :: "string list"

record InstallSpec =
  ID :: string
  Version :: string

text \<open>
  Errors are values. \<open>Errorf p e\<close> is \<^verbatim>\<open>fmt.Errorf(p + ": %w", e)\<close>: the error \<open>e\<close> wrapped
  with the context \<open>p\<close>. \<open>PathError op dir name\<close> is the \<^verbatim>\<open>*fs.PathError\<close> of package os for a
  path that does not exist. \<open>ExternalError\<close> stands for an error made outside this repository
  (YAML decoding, HTTP transport).
\<close>

datatype error =
    ErrInvalidInstallSpec
  | ErrSpecNotFound
  | ManifestNotFoundError string
  | Errorf string error
  | PathError string string string
  | ExternalError string

text \<open>
  A Go call either returns its value with a nil error, returns a non-nil error, or panics
  (the only panic in this code is a nil dereference).
\<close>

datatype 'a outcome = Return 'a | Fail error | Panic

section \<open>Repository contracts (package pak)\<close>

text \<open>
  The two interfaces are method tables over the state of the repository behind them. A method
  takes the state and returns its outcome with the new state. A nil pointer result with a nil
  error is \<open>Return None\<close>. A reader is the bytes it yields.
\<close>

record 'r SourceRepository =
  GetManifest :: "string \<Rightarrow> string \<Rightarrow> 'r \<Rightarrow> Manifest option outcome \<times> 'r"
  GetSpec :: "string \<Rightarrow> 'r \<Rightarrow> Spec option outcome \<times> 'r"
  List :: "'r \<Rightarrow> (string \<rightharpoonup> Spec) outcome \<times> 'r"
  GetFile :: "string \<Rightarrow> string \<Rightarrow> string \<Rightarrow> 'r \<Rightarrow> bytes option outcome \<times> 'r"

record 'l WritableRepository =
  GetInstalledManifest :: "string \<Rightarrow> 'l \<Rightarrow> Manifest option outcome \<times> 'l"
  ListInstalled :: "'l \<Rightarrow> Manifest list outcome \<times> 'l"
  Write :: "string \<Rightarrow> string \<Rightarrow> string \<Rightarrow> bytes \<Rightarrow> 'l \<Rightarrow> unit outcome \<times> 'l"
  WriteManifest :: "Manifest \<Rightarrow> 'l \<Rightarrow> unit outcome \<times> 'l"
  Delete :: "string \<Rightarrow> 'l \<Rightarrow> unit outcome \<times> 'l"

section \<open>Manager (package pak)\<close>

text \<open>
  The manager holds the two repositories; its logger is modelled by the log lines it is
  given. The world a manager call runs in is the state of the local store, the state of the
  source, and the trace of every interface call and log line issued so far, in order. Line
  numbers are those of \<^verbatim>\<open>src/unnamed/part_000\<close>, which holds the packages memory, fs, pak and
  yaml.
\<close>

record ('l, 'r) Manager =
  local :: "'l WritableRepository"
  remote :: "'r SourceRepository"

datatype event =
    Infof string
  | Debugf string
  | Call_GetInstalledManifest string
  | Call_ListInstalled
  | Call_Write string string string
  | Call_WriteManifest Manifest
  | Call_Delete string
  | Call_GetManifest string string
  | Call_GetSpec string
  | Call_List
  | Call_GetFile string string string

record ('l, 'r) world =
  local_store :: 'l
  remote_store :: 'r
  trace :: "event list"

definition logger :: "event \<Rightarrow> ('l, 'r) world \<Rightarrow> ('l, 'r) world" where
  "logger ev w = w\<lparr>trace := trace w @ [ev]\<rparr>"

definition call_local ::
  "event \<Rightarrow> ('l \<Rightarrow> 'a outcome \<times> 'l) \<Rightarrow> ('l, 'r) world \<Rightarrow> 'a outcome \<times> ('l, 'r) world" where
  "call_local ev f w =
     (case f (local_store w) of
        (res, l') \<Rightarrow> (res, w\<lparr>local_store := l', trace := trace w @ [ev]\<rparr>))"

definition call_remote ::
  "event \<Rightarrow> ('r \<Rightarrow> 'a outcome \<times> 'r) \<Rightarrow> ('l, 'r) world \<Rightarrow> 'a outcome \<times> ('l, 'r) world" where
  "call_remote ev f w =
     (case f (remote_store w) of
        (res, r') \<Rightarrow> (res, w\<lparr>remote_store := r', trace := trace w @ [ev]\<rparr>))"

text \<open>\<^verbatim>\<open>%q\<close> of a string without special characters.\<close>

definition quoted :: "string \<Rightarrow> string" where
  "quoted s = [CHR 0x22] @ s @ [CHR 0x22]"

text \<open>
  \<^verbatim>\<open>Manager.downloadFile\<close>. \<^verbatim>\<open>defer rc.Close()\<close> evaluates the method value of \<^verbatim>\<open>rc\<close>, which
  panics when the source returned a nil reader with a nil error.
\<close>

definition downloadFile ::
  "('l, 'r) Manager \<Rightarrow> string \<Rightarrow> string \<Rightarrow> string \<Rightarrow> ('l, 'r) world
     \<Rightarrow> unit outcome \<times> ('l, 'r) world" where
  "downloadFile m pid version file w =
     (case call_remote (Call_GetFile pid version file) (GetFile (remote m) pid version file) w of
        (Fail e, w1) \<Rightarrow> (Fail (Errorf ''getting remote pak file'' e), w1)
      | (Panic, w1) \<Rightarrow> (Panic, w1)
      | (Return None, w1) \<Rightarrow> (Panic, w1)
      | (Return (Some rc), w1) \<Rightarrow>
          (case call_local (Call_Write pid version file) (Write (local m) pid version file rc) w1 of
             (Fail e, w2) \<Rightarrow> (Fail (Errorf ''writing local pak file'' e), w2)
           | (Panic, w2) \<Rightarrow> (Panic, w2)
           | (Return u, w2) \<Rightarrow> (Return (), w2)))"

text \<open>The loop over \<^verbatim>\<open>manifest.Files\<close> in \<^verbatim>\<open>Manager.install\<close> (lines 508-512).\<close>

fun downloadFiles ::
  "('l, 'r) Manager \<Rightarrow> string \<Rightarrow> string \<Rightarrow> string list \<Rightarrow> ('l, 'r) world
     \<Rightarrow> unit outcome \<times> ('l, 'r) world" where
  "downloadFiles m pid version [] w = (Return (), w)"
| "downloadFiles m pid version (file # files) w =
     (case downloadFile m pid version file w of
        (Fail e, w1) \<Rightarrow> (Fail (Errorf (''downloading file '' @ quoted file) e), w1)
      | (Panic, w1) \<Rightarrow> (Panic, w1)
      | (Return u, w1) \<Rightarrow> downloadFiles m pid version files w1)"

text \<open>\<^verbatim>\<open>Manager.uninstall\<close>.\<close>

definition uninstall ::
  "('l, 'r) Manager \<Rightarrow> string \<Rightarrow> ('l, 'r) world \<Rightarrow> unit outcome \<times> ('l, 'r) world" where
  "uninstall m pid w =
     (case call_local (Call_Delete pid) (Delete (local m) pid) w of
        (Fail e, w1) \<Rightarrow> (Fail (Errorf ''deleting local pak'' e), w1)
      | (Panic, w1) \<Rightarrow> (Panic, w1)
      | (Return u, w1) \<Rightarrow> (Return (), w1))"

text \<open>
  \<^verbatim>\<open>Manager.install\<close> is given in the parts of its source, in their order. First, the version
  is resolved when it is empty (lines 465-476).
\<close>

definition resolveVersion ::
  "('l, 'r) Manager \<Rightarrow> InstallSpec \<Rightarrow> ('l, 'r) world \<Rightarrow> InstallSpec outcome \<times> ('l, 'r) world" where
  "resolveVersion m toInstall w =
     (if InstallSpec.Version toInstall = [] then
        (case call_remote (Call_GetSpec (InstallSpec.ID toInstall))
                (GetSpec (remote m) (InstallSpec.ID toInstall)) w of
           (Fail e, w1) \<Rightarrow> (Fail (Errorf ''getting spec'' e), w1)
         | (Panic, w1) \<Rightarrow> (Panic, w1)
         | (Return None, w1) \<Rightarrow> (Fail ErrSpecNotFound, w1)
         | (Return (Some spec), w1) \<Rightarrow>
             (Return (toInstall\<lparr>InstallSpec.Version := CurrentVersion spec\<rparr>), w1))
      else (Return toInstall, w))"

text \<open>
  The log line of an upgrade (lines 486-488). Its arguments are evaluated before the logger
  is called: \<^verbatim>\<open>existing.Version\<close> dereferences \<^verbatim>\<open>existing\<close>, which is nil when nothing is
  installed.
\<close>

definition logUpgrade ::
  "InstallSpec \<Rightarrow> Manifest option \<Rightarrow> bool \<Rightarrow> ('l, 'r) world \<Rightarrow> unit outcome \<times> ('l, 'r) world" where
  "logUpgrade toInstall existing upgrade w =
     (if upgrade then
        (case existing of
           None \<Rightarrow> (Panic, w)
         | Some ex \<Rightarrow>
             (Return (), logger (Infof (''Upgrading '' @ InstallSpec.ID toInstall @ '' from ''
                 @ Manifest.Version ex @ '' to '' @ InstallSpec.Version toInstall)) w))
      else (Return (), w))"

text \<open>
  The manifest is fetched, the existing version is uninstalled, the files are downloaded and
  the manifest is written (lines 490-518).
\<close>

definition replaceInstalled ::
  "('l, 'r) Manager \<Rightarrow> InstallSpec \<Rightarrow> Manifest option \<Rightarrow> ('l, 'r) world
     \<Rightarrow> unit outcome \<times> ('l, 'r) world" where
  "replaceInstalled m toInstall existing w =
     (case call_remote (Call_GetManifest (InstallSpec.ID toInstall) (InstallSpec.Version toInstall))
             (GetManifest (remote m) (InstallSpec.ID toInstall) (InstallSpec.Version toInstall)) w of
        (Fail e, w1) \<Rightarrow> (Fail (Errorf ''getting remote pak manifest'' e), w1)
      | (Panic, w1) \<Rightarrow> (Panic, w1)
      | (Return None, w1) \<Rightarrow> (Fail (ManifestNotFoundError (InstallSpec.Version toInstall)), w1)
      | (Return (Some manifest), w1) \<Rightarrow>
          (case (case existing of
                   None \<Rightarrow> (Return (), w1)
                 | Some ex \<Rightarrow>
                     (case uninstall m (InstallSpec.ID toInstall) w1 of
                        (Fail e, w2) \<Rightarrow> (Fail (Errorf ''uninstalling existing version'' e), w2)
                      | (Panic, w2) \<Rightarrow> (Panic, w2)
                      | (Return u, w2) \<Rightarrow> (Return (), w2))) of
             (Fail e, w2) \<Rightarrow> (Fail e, w2)
           | (Panic, w2) \<Rightarrow> (Panic, w2)
           | (Return u, w2) \<Rightarrow>
               (case downloadFiles m (InstallSpec.ID toInstall) (InstallSpec.Version toInstall)
                       (Files manifest) w2 of
                  (Fail e, w3) \<Rightarrow> (Fail e, w3)
                | (Panic, w3) \<Rightarrow> (Panic, w3)
                | (Return u, w3) \<Rightarrow>
                    (case call_local (Call_WriteManifest manifest)
                            (WriteManifest (local m) manifest) w3 of
                       (Fail e, w4) \<Rightarrow> (Fail (Errorf ''writing local pak manifest'' e), w4)
                     | (Panic, w4) \<Rightarrow> (Panic, w4)
                     | (Return u, w4) \<Rightarrow> (Return (), w4)))))"

definition alreadyInstalled :: "Manifest option \<Rightarrow> InstallSpec \<Rightarrow> bool" where
  "alreadyInstalled existing toInstall =
     (case existing of
        None \<Rightarrow> False
      | Some ex \<Rightarrow> Manifest.Version ex = InstallSpec.Version toInstall)"

text \<open>
  What \<^verbatim>\<open>install\<close> does once the version is resolved (lines 478-518): nothing when that
  version is installed, the replacement otherwise.
\<close>

definition installResolved ::
  "('l, 'r) Manager \<Rightarrow> InstallSpec \<Rightarrow> Manifest option \<Rightarrow> bool \<Rightarrow> ('l, 'r) world
     \<Rightarrow> unit outcome \<times> ('l, 'r) world" where
  "installResolved m toInstall existing upgrade w =
     (if alreadyInstalled existing toInstall then
        (Return (), logger (Debugf (''pak '' @ InstallSpec.ID toInstall @ ''@''
            @ InstallSpec.Version toInstall @ '' already installed'')) w)
      else
        (case logUpgrade toInstall existing upgrade w of
           (Fail e, w1) \<Rightarrow> (Fail e, w1)
         | (Panic, w1) \<Rightarrow> (Panic, w1)
         | (Return u, w1) \<Rightarrow> replaceInstalled m toInstall existing w1))"

definition install ::
  "('l, 'r) Manager \<Rightarrow> InstallSpec \<Rightarrow> bool \<Rightarrow> ('l, 'r) world \<Rightarrow> unit outcome \<times> ('l, 'r) world" where
  "install m toInstall upgrade w =
     (if InstallSpec.ID toInstall = [] then (Fail ErrInvalidInstallSpec, w)
      else
        (case call_local (Call_GetInstalledManifest (InstallSpec.ID toInstall))
                (GetInstalledManifest (local m) (InstallSpec.ID toInstall)) w of
           (Fail e, w1) \<Rightarrow> (Fail (Errorf ''getting local pak spec'' e), w1)
         | (Panic, w1) \<Rightarrow> (Panic, w1)
         | (Return existing, w1) \<Rightarrow>
             (case resolveVersion m toInstall w1 of
                (Fail e, w2) \<Rightarrow> (Fail e, w2)
              | (Panic, w2) \<Rightarrow> (Panic, w2)
              | (Return resolved, w2) \<Rightarrow> installResolved m resolved existing upgrade w2)))"

text \<open>\<^verbatim>\<open>Manager.Install\<close>: the specs in order, stopping at the first that fails.\<close>

fun Install ::
  "('l, 'r) Manager \<Rightarrow> InstallSpec list \<Rightarrow> ('l, 'r) world \<Rightarrow> unit outcome \<times> ('l, 'r) world" where
  "Install m [] w = (Return (), w)"
| "Install m (spec # specs) w =
     (case install m spec False
             (logger (Infof (''Installing '' @ InstallSpec.ID spec @ ''@''
                 @ InstallSpec.Version spec)) w) of
        (Fail e, w1) \<Rightarrow>
          (Fail (Errorf (''installing pak '' @ InstallSpec.ID spec @ ''@''
              @ InstallSpec.Version spec) e), w1)
      | (Panic, w1) \<Rightarrow> (Panic, w1)
      | (Return u, w1) \<Rightarrow> Install m specs w1)"

text \<open>\<^verbatim>\<open>Manager.Uninstall\<close>.\<close>

fun Uninstall ::
  "('l, 'r) Manager \<Rightarrow> string list \<Rightarrow> ('l, 'r) world \<Rightarrow> unit outcome \<times> ('l, 'r) world" where
  "Uninstall m [] w = (Return (), w)"
| "Uninstall m (pid # ids) w =
     (case uninstall m pid (logger (Infof (''Uninstalling '' @ pid)) w) of
        (Fail e, w1) \<Rightarrow> (Fail (Errorf (''uninstalling pak '' @ pid) e), w1)
      | (Panic, w1) \<Rightarrow> (Panic, w1)
      | (Return u, w1) \<Rightarrow> Uninstall m ids w1)"

text \<open>\<^verbatim>\<open>Manager.Upgrade\<close>: with no specs, every installed pak with an empty version.\<close>

fun upgradeEach ::
  "('l, 'r) Manager \<Rightarrow> InstallSpec list \<Rightarrow> ('l, 'r) world \<Rightarrow> unit outcome \<times> ('l, 'r) world" where
  "upgradeEach m [] w = (Return (), w)"
| "upgradeEach m (spec # specs) w =
     (case install m spec True w of
        (Fail e, w1) \<Rightarrow> (Fail (Errorf (''upgrading pak '' @ InstallSpec.ID spec) e), w1)
      | (Panic, w1) \<Rightarrow> (Panic, w1)
      | (Return u, w1) \<Rightarrow> upgradeEach m specs w1)"

definition Upgrade ::
  "('l, 'r) Manager \<Rightarrow> InstallSpec list \<Rightarrow> ('l, 'r) world \<Rightarrow> unit outcome \<times> ('l, 'r) world" where
  "Upgrade m specs w =
     (if specs = [] then
        (case call_local Call_ListInstalled (ListInstalled (local m)) w of
           (Fail e, w1) \<Rightarrow> (Fail (Errorf ''listing local paks'' e), w1)
         | (Panic, w1) \<Rightarrow> (Panic, w1)
         | (Return installed, w1) \<Rightarrow>
             upgradeEach m
               (map (\<lambda>pak. \<lparr>InstallSpec.ID = Manifest.ID pak, Version = []\<rparr>) installed) w1)
      else upgradeEach m specs w)"

text \<open>
  \<^verbatim>\<open>Manager.Upgradable\<close>. \<^verbatim>\<open>spec.CurrentVersion\<close> is read without a nil check, so a nil spec
  with a nil error panics.
\<close>

definition upgradableEntry :: "Manifest \<Rightarrow> Spec \<Rightarrow> UpgradableSpec" where
  "upgradableEntry pak spec =
     \<lparr>Spec.ID = Manifest.ID pak, Name = [], Description = Description spec,
      CurrentVersion = Manifest.Version pak, Updated = Date pak, Versions = [],
      LatestVersion = CurrentVersion spec, LastUpdated = Updated spec\<rparr>"

fun upgradableEach ::
  "('l, 'r) Manager \<Rightarrow> Manifest list \<Rightarrow> UpgradableSpec list \<Rightarrow> ('l, 'r) world
     \<Rightarrow> UpgradableSpec list outcome \<times> ('l, 'r) world" where
  "upgradableEach m [] upgradable w = (Return upgradable, w)"
| "upgradableEach m (pak # installed) upgradable w =
     (case call_remote (Call_GetSpec (Manifest.ID pak)) (GetSpec (remote m) (Manifest.ID pak)) w of
        (Fail e, w1) \<Rightarrow> (Fail (Errorf ''getting latest version'' e), w1)
      | (Panic, w1) \<Rightarrow> (Panic, w1)
      | (Return None, w1) \<Rightarrow> (Panic, w1)
      | (Return (Some spec), w1) \<Rightarrow>
          upgradableEach m installed
            (if CurrentVersion spec \<noteq> Manifest.Version pak
             then upgradable @ [upgradableEntry pak spec] else upgradable) w1)"

definition Upgradable ::
  "('l, 'r) Manager \<Rightarrow> ('l, 'r) world \<Rightarrow> UpgradableSpec list outcome \<times> ('l, 'r) world" where
  "Upgradable m w =
     (case call_local Call_ListInstalled (ListInstalled (local m)) w of
        (Fail e, w1) \<Rightarrow> (Fail (Errorf ''listing local paks'' e), w1)
      | (Panic, w1) \<Rightarrow> (Panic, w1)
      | (Return installed, w1) \<Rightarrow> upgradableEach m installed [] w1)"

section \<open>File system repository (package fs)\<close>

text \<open>
  The repository keeps the pak \<open>pid\<close> under \<^verbatim>\<open><BaseDir>/<pid>\<close>: its files by their names and
  its manifest in the file \<^verbatim>\<open>manifest\<close> of the same directory. The state of the repository is
  the regular files below \<^verbatim>\<open>BaseDir\<close>, an association list from a path to the bytes of the
  file. A path is the directory and the name that \<^verbatim>\<open>filepath.Join(BaseDir, pid, name)\<close> joins:
  ids and file names are taken to be single path elements. Directories are implicit:
  \<^verbatim>\<open>os.MkdirAll\<close> succeeds, and the removal of the empty directory at the end of \<^verbatim>\<open>Delete\<close>,
  whose error is ignored, changes no regular file. The only failure of the file system that is
  modelled is that of a path that does not exist.
\<close>

type_synonym path = "string \<times> string"
type_synonym fsys = "(path \<times> bytes) list"

text \<open>
  Package yaml of the repository calls the library \<^verbatim>\<open>gopkg.in/yaml.v3\<close>, which is not part of
  it: decoding and encoding of a manifest and decoding of an index are parameters of the model.
\<close>

record yaml =
  yaml_ReadManifest :: "bytes \<Rightarrow> Manifest outcome"
  yaml_WriteManifest :: "Manifest \<Rightarrow> bytes"
  yaml_ReadSpecIndex :: "bytes \<Rightarrow> (string \<rightharpoonup> Spec) outcome"

definition ManifestPath :: string where
  "ManifestPath = ''manifest''"

definition manifestPath :: "string \<Rightarrow> path" where
  "manifestPath pid = (pid, ManifestPath)"

definition filePath :: "string \<Rightarrow> string \<Rightarrow> path" where
  "filePath pid name = (pid, name)"

definition pathString :: "path \<Rightarrow> string" where
  "pathString p = fst p @ ''/'' @ snd p"

definition os_Open :: "path \<Rightarrow> fsys \<Rightarrow> bytes outcome" where
  "os_Open p fs =
     (case map_of fs p of
        None \<Rightarrow> Fail (PathError ''open'' (fst p) (snd p))
      | Some b \<Rightarrow> Return b)"

definition os_Remove :: "path \<Rightarrow> fsys \<Rightarrow> unit outcome \<times> fsys" where
  "os_Remove p fs =
     (case map_of fs p of
        None \<Rightarrow> (Fail (PathError ''remove'' (fst p) (snd p)), fs)
      | Some b \<Rightarrow> (Return (), AList.delete p fs))"

text \<open>\<^verbatim>\<open>os.Create\<close> followed by \<^verbatim>\<open>io.Copy\<close>: the file holds exactly the data.\<close>

definition os_Create :: "path \<Rightarrow> bytes \<Rightarrow> fsys \<Rightarrow> fsys" where
  "os_Create p data fs = AList.update p data fs"

text \<open>\<^verbatim>\<open>errors.Is(err, os.ErrNotExist)\<close>: the chain of wrapped errors is searched.\<close>

fun isNotExist :: "error \<Rightarrow> bool" where
  "isNotExist (PathError opn d n) = True"
| "isNotExist (Errorf p e) = isNotExist e"
| "isNotExist e = False"

definition fs_getManifest :: "yaml \<Rightarrow> string \<Rightarrow> fsys \<Rightarrow> Manifest outcome" where
  "fs_getManifest y pid fs =
     (case os_Open (manifestPath pid) fs of
        Fail e \<Rightarrow> Fail e
      | Panic \<Rightarrow> Panic
      | Return f \<Rightarrow> yaml_ReadManifest y f)"

definition fs_GetInstalledManifest ::
  "yaml \<Rightarrow> string \<Rightarrow> fsys \<Rightarrow> Manifest option outcome \<times> fsys" where
  "fs_GetInstalledManifest y pid fs =
     (case fs_getManifest y pid fs of
        Fail e \<Rightarrow> if isNotExist e then (Return None, fs) else (Fail e, fs)
      | Panic \<Rightarrow> (Panic, fs)
      | Return manifest \<Rightarrow> (Return (Some manifest), fs))"

text \<open>
  \<^verbatim>\<open>filepath.Walk\<close> visits the directories in lexical order. A file named \<^verbatim>\<open>manifest\<close> counts
  when it decodes and lies in the directory of the id it names.
\<close>

definition fs_ListInstalled :: "yaml \<Rightarrow> fsys \<Rightarrow> Manifest list outcome \<times> fsys" where
  "fs_ListInstalled y fs =
     (Return (concat (map (\<lambda>dir.
        (case map_of fs (dir, ManifestPath) of
           None \<Rightarrow> []
         | Some f \<Rightarrow>
             (case yaml_ReadManifest y f of
                Return manifest \<Rightarrow>
                  if (dir, ManifestPath) = manifestPath (Manifest.ID manifest) then [manifest] else []
              | Fail e \<Rightarrow> []
              | Panic \<Rightarrow> [])))
        (sort (remdups (map (\<lambda>e. fst (fst e)) fs))))), fs)"

text \<open>\<^verbatim>\<open>Write\<close> stores the file under the id; the version is not part of the path.\<close>

definition fs_Write ::
  "string \<Rightarrow> string \<Rightarrow> string \<Rightarrow> bytes \<Rightarrow> fsys \<Rightarrow> unit outcome \<times> fsys" where
  "fs_Write pid version file data fs = (Return (), os_Create (filePath pid file) data fs)"

definition fs_WriteManifest :: "yaml \<Rightarrow> Manifest \<Rightarrow> fsys \<Rightarrow> unit outcome \<times> fsys" where
  "fs_WriteManifest y manifest fs =
     (Return (), os_Create (manifestPath (Manifest.ID manifest)) (yaml_WriteManifest y manifest) fs)"

text \<open>The loop of \<^verbatim>\<open>Delete\<close> over \<^verbatim>\<open>manifest.Files\<close> (lines 268-273).\<close>

fun removeFiles :: "string \<Rightarrow> string list \<Rightarrow> fsys \<Rightarrow> unit outcome \<times> fsys" where
  "removeFiles pid [] fs = (Return (), fs)"
| "removeFiles pid (f # files) fs =
     (case os_Remove (filePath pid f) fs of
        (Fail e, fs1) \<Rightarrow>
          (Fail (Errorf (''failed to remove file '' @ quoted (pathString (filePath pid f))) e), fs1)
      | (Panic, fs1) \<Rightarrow> (Panic, fs1)
      | (Return u, fs1) \<Rightarrow> removeFiles pid files fs1)"

definition fs_Delete :: "yaml \<Rightarrow> string \<Rightarrow> fsys \<Rightarrow> unit outcome \<times> fsys" where
  "fs_Delete y pid fs =
     (case fs_GetInstalledManifest y pid fs of
        (Fail e, fs1) \<Rightarrow> (Fail (Errorf ''failed to get manifest'' e), fs1)
      | (Panic, fs1) \<Rightarrow> (Panic, fs1)
      | (Return None, fs1) \<Rightarrow> (Return (), fs1)
      | (Return (Some manifest), fs1) \<Rightarrow>
          (case removeFiles pid (Manifest.Files manifest) fs1 of
             (Fail e, fs2) \<Rightarrow> (Fail e, fs2)
           | (Panic, fs2) \<Rightarrow> (Panic, fs2)
           | (Return u, fs2) \<Rightarrow>
               (case os_Remove (manifestPath pid) fs2 of
                  (Fail e, fs3) \<Rightarrow> (Fail (Errorf ''failed to remove manifest'' e), fs3)
                | (Panic, fs3) \<Rightarrow> (Panic, fs3)
                | (Return u, fs3) \<Rightarrow> (Return (), fs3))))"

definition fs_Repository :: "yaml \<Rightarrow> fsys WritableRepository" where
  "fs_Repository y =
     \<lparr>GetInstalledManifest = fs_GetInstalledManifest y,
      ListInstalled = fs_ListInstalled y,
      Write = fs_Write,
      WriteManifest = fs_WriteManifest y,
      Delete = fs_Delete y\<rparr>"

section \<open>Memory repository (package memory)\<close>

record FileSpec = InstallSpec +
  File :: string

record memory =
  Index :: "string \<rightharpoonup> Spec"
  Manifests :: "InstallSpec \<rightharpoonup> Manifest"
  Files :: "FileSpec \<rightharpoonup> bytes"

definition memory_GetSpec :: "string \<Rightarrow> memory \<Rightarrow> Spec option outcome \<times> memory" where
  "memory_GetSpec pid r =
     (case Index r pid of
        None \<Rightarrow> (Return None, r)
      | Some s \<Rightarrow> (Return (Some s), r))"

definition memory_List :: "memory \<Rightarrow> (string \<rightharpoonup> Spec) outcome \<times> memory" where
  "memory_List r = (Return (Index r), r)"

definition memory_GetManifest ::
  "string \<Rightarrow> string \<Rightarrow> memory \<Rightarrow> Manifest option outcome \<times> memory" where
  "memory_GetManifest pid version r =
     (case Manifests r \<lparr>InstallSpec.ID = pid, Version = version\<rparr> of
        None \<Rightarrow> (Return None, r)
      | Some s \<Rightarrow> (Return (Some s), r))"

definition memory_GetFile ::
  "string \<Rightarrow> string \<Rightarrow> string \<Rightarrow> memory \<Rightarrow> bytes option outcome \<times> memory" where
  "memory_GetFile pid version file r =
     (case memory.Files r \<lparr>InstallSpec.ID = pid, Version = version, File = file\<rparr> of
        None \<Rightarrow> (Return None, r)
      | Some s \<Rightarrow> (Return (Some s), r))"

definition memory_Repository :: "memory SourceRepository" where
  "memory_Repository =
     \<lparr>GetManifest = memory_GetManifest,
      GetSpec = memory_GetSpec,
      List = memory_List,
      GetFile = memory_GetFile\<rparr>"

section \<open>HTTP repository (pkg/repository/http/http.go)\<close>

text \<open>
  The fields of the repository that the index cache uses. A duration is an integer, like an
  instant; \<^verbatim>\<open>time.Since(t)\<close> is the clock reading minus \<open>t\<close>.
\<close>

record http_Repository =
  CacheTTL :: int
  cachedIndex :: "(string \<rightharpoonup> Spec) option"
  cacheTime :: Time

text \<open>
  What lies outside the repository value: the clock, the server (for the path of a URL below
  \<^verbatim>\<open>BaseURL\<close>, a transport error or a status code with a body), the time a request takes and
  the requests sent so far.
\<close>

record network =
  clock :: Time
  latency :: int
  server :: "string list \<Rightarrow> (nat \<times> bytes) outcome"
  requests :: "string list list"

definition IndexPath :: string where
  "IndexPath = ''index.yml''"

definition http_checkCacheExpired :: "Time \<Rightarrow> http_Repository \<Rightarrow> http_Repository" where
  "http_checkCacheExpired now r =
     (if cachedIndex r = None then r
      else if now - cacheTime r > CacheTTL r then r\<lparr>cachedIndex := None\<rparr>
      else r)"

text \<open>
  \<^verbatim>\<open>getFile\<close> sends one request. The errors of \<^verbatim>\<open>http.NewRequestWithContext\<close> and of
  \<^verbatim>\<open>url.JoinPath\<close>, which the source marks as not happening, are left out.
\<close>

definition http_getFile :: "string list \<Rightarrow> network \<Rightarrow> bytes outcome \<times> network" where
  "http_getFile u n =
     (let n1 = n\<lparr>requests := requests n @ [u], clock := clock n + latency n\<rparr> in
      case server n u of
        Fail e \<Rightarrow> (Fail (Errorf ''failed to get remote file'' e), n1)
      | Panic \<Rightarrow> (Panic, n1)
      | Return (status, body) \<Rightarrow>
          if status \<ge> 400 then (Fail (ExternalError ''failed to get remote file: status''), n1)
          else (Return body, n1))"

definition http_getIndex ::
  "yaml \<Rightarrow> http_Repository \<times> network
     \<Rightarrow> (string \<rightharpoonup> Spec) outcome \<times> http_Repository \<times> network" where
  "http_getIndex y rn =
     (case rn of (r, n) \<Rightarrow>
        (let r1 = http_checkCacheExpired (clock n) r in
         case cachedIndex r1 of
           Some index \<Rightarrow> (Return index, r1, n)
         | None \<Rightarrow>
             (case http_getFile [IndexPath] n of
                (Fail e, n1) \<Rightarrow> (Fail (Errorf ''failed to get index file'' e), r1, n1)
              | (Panic, n1) \<Rightarrow> (Panic, r1, n1)
              | (Return f, n1) \<Rightarrow>
                  (case yaml_ReadSpecIndex y f of
                     Fail e \<Rightarrow> (Fail (Errorf ''failed to read index file'' e), r1, n1)
                   | Panic \<Rightarrow> (Panic, r1, n1)
                   | Return index \<Rightarrow>
                       (Return index, r1\<lparr>cachedIndex := Some index, cacheTime := clock n1\<rparr>, n1)))))"

definition http_List ::
  "yaml \<Rightarrow> http_Repository \<times> network
     \<Rightarrow> (string \<rightharpoonup> Spec) outcome \<times> http_Repository \<times> network" where
  "http_List y rn = http_getIndex y rn"

definition http_GetSpec ::
  "yaml \<Rightarrow> string \<Rightarrow> http_Repository \<times> network
     \<Rightarrow> Spec option outcome \<times> http_Repository \<times> network" where
  "http_GetSpec y pid rn =
     (case http_getIndex y rn of
        (Fail e, rn1) \<Rightarrow> (Fail (Errorf ''failed to get index'' e), rn1)
      | (Panic, rn1) \<Rightarrow> (Panic, rn1)
      | (Return index, rn1) \<Rightarrow> (Return (index pid), rn1))"

section \<open>Command line front end (cmd/pakman/pakman.go)\<close>

text \<open>
  Ids are ASCII here: \<^verbatim>\<open>strings.ToLower\<close> maps \<^verbatim>\<open>A\<close> to \<^verbatim>\<open>Z\<close> to lower case and
  \<^verbatim>\<open>strings.EqualFold\<close> compares byte by byte up to that mapping. The comparison \<^verbatim>\<open><\<close> of Go
  strings is the lexicographic order of their bytes.
\<close>

definition toLower :: "char \<Rightarrow> char" where
  "toLower c = (if CHR ''A'' \<le> c \<and> c \<le> CHR ''Z'' then char_of (of_char c + (32::nat)) else c)"

definition strings_ToLower :: "string \<Rightarrow> string" where
  "strings_ToLower s = map toLower s"

fun strings_EqualFold :: "string \<Rightarrow> string \<Rightarrow> bool" where
  "strings_EqualFold [] [] = True"
| "strings_EqualFold (c # s) (d # t) = (toLower c = toLower d \<and> strings_EqualFold s t)"
| "strings_EqualFold s t = False"

fun strings_HasPrefix :: "string \<Rightarrow> string \<Rightarrow> bool" where
  "strings_HasPrefix s [] = True"
| "strings_HasPrefix [] (c # p) = False"
| "strings_HasPrefix (a # s) (c # p) = (a = c \<and> strings_HasPrefix s p)"

fun strings_Contains :: "string \<Rightarrow> string \<Rightarrow> bool" where
  "strings_Contains [] substr = strings_HasPrefix [] substr"
| "strings_Contains (a # s) substr =
     (strings_HasPrefix (a # s) substr \<or> strings_Contains s substr)"

text \<open>The \<^verbatim>\<open>less\<close> function that \<^verbatim>\<open>sortedKeys\<close> gives to \<^verbatim>\<open>sort.Slice\<close>, on the two keys.\<close>

definition keyLess :: "string \<Rightarrow> string \<Rightarrow> bool" where
  "keyLess a b =
     (if strings_EqualFold a b then a < b
      else strings_ToLower a < strings_ToLower b)"

text \<open>
  \<^verbatim>\<open>sort.Slice\<close> belongs to the standard library. It is an insertion sort here; the order it is
  given is total on the keys of a map, so every sorting algorithm yields the same list.
\<close>

fun insertBy :: "('a \<Rightarrow> 'a \<Rightarrow> bool) \<Rightarrow> 'a \<Rightarrow> 'a list \<Rightarrow> 'a list" where
  "insertBy lessf x [] = [x]"
| "insertBy lessf x (y # ys) = (if lessf y x then y # insertBy lessf x ys else x # y # ys)"

definition sort_Slice :: "('a \<Rightarrow> 'a \<Rightarrow> bool) \<Rightarrow> 'a list \<Rightarrow> 'a list" where
  "sort_Slice lessf xs = foldr (insertBy lessf) xs []"

text \<open>
  The index is given with the order in which \<^verbatim>\<open>range\<close> iterates over it, which Go leaves
  open: an association list with distinct keys.
\<close>

definition sortedKeys :: "(string \<times> Spec) list \<Rightarrow> string list" where
  "sortedKeys index = sort_Slice keyLess (map fst index)"

definition printSpec :: "Spec \<Rightarrow> string list" where
  "printSpec v = map (\<lambda>vv. Spec.ID v @ '' '' @ vv @ '' '' @ Description v) (Versions v)"

text \<open>The keys whose lines \<^verbatim>\<open>search\<close> prints, in the order of printing, and the lines.\<close>

definition searchKeys :: "(string \<times> Spec) list \<Rightarrow> string \<Rightarrow> string list" where
  "searchKeys index query =
     filter (\<lambda>k. strings_Contains (strings_ToLower k) (strings_ToLower query)) (sortedKeys index)"

definition search :: "(string \<times> Spec) list \<Rightarrow> string \<Rightarrow> string list" where
  "search index query =
     concat (map (\<lambda>k. case map_of index k of None \<Rightarrow> [] | Some v \<Rightarrow> printSpec v)
       (searchKeys index query))"

definition list_cmd :: "(string \<times> Spec) list \<Rightarrow> string list" where
  "list_cmd index =
     concat (map (\<lambda>k. case map_of index k of None \<Rightarrow> [] | Some v \<Rightarrow> printSpec v)
       (sortedKeys index))"

section \<open>Example repositories\<close>

text \<open>
  A codec that knows the manifests of a table: a manifest is written as its id and version,
  and read back by looking the table up. The index is read from the body \<^verbatim>\<open>index\<close>.
\<close>

definition manifestTag :: "Manifest \<Rightarrow> bytes" where
  "manifestTag manifest = Manifest.ID manifest @ ''@'' @ Manifest.Version manifest"

definition tableYaml :: "Manifest list \<Rightarrow> (string \<rightharpoonup> Spec) \<Rightarrow> yaml" where
  "tableYaml table index =
     \<lparr>yaml_ReadManifest = (\<lambda>f.
        case find (\<lambda>manifest. manifestTag manifest = f) table of
          None \<Rightarrow> Fail (ExternalError ''failed to decode yaml'')
        | Some manifest \<Rightarrow> Return manifest),
      yaml_WriteManifest = manifestTag,
      yaml_ReadSpecIndex = (\<lambda>f.
        if f = ''index'' then Return index else Fail (ExternalError ''failed to decode yaml''))\<rparr>"

definition widget1 :: Manifest where
  "widget1 = \<lparr>Manifest.ID = ''widget'', Name = ''Widget'', Version = ''1.0.0'', Date = 10,
     Files = [''a.txt'', ''b.txt'']\<rparr>"

definition widget2 :: Manifest where
  "widget2 = \<lparr>Manifest.ID = ''widget'', Name = ''Widget'', Version = ''2.0.0'', Date = 20,
     Files = [''b.txt'', ''c.txt'']\<rparr>"

definition widgetSpec :: Spec where
  "widgetSpec = \<lparr>Spec.ID = ''widget'', Name = ''Widget'', Description = ''a widget'',
     CurrentVersion = ''2.0.0'', Updated = 20, Versions = [''1.0.0'', ''2.0.0'']\<rparr>"

definition exampleIndex :: "string \<rightharpoonup> Spec" where
  "exampleIndex = [''widget'' \<mapsto> widgetSpec]"

definition exampleYaml :: yaml where
  "exampleYaml = tableYaml [widget1, widget2] exampleIndex"

definition exampleSource :: memory where
  "exampleSource =
     \<lparr>Index = exampleIndex,
      Manifests = [\<lparr>InstallSpec.ID = ''widget'', Version = ''1.0.0''\<rparr> \<mapsto> widget1,
                   \<lparr>InstallSpec.ID = ''widget'', Version = ''2.0.0''\<rparr> \<mapsto> widget2],
      Files = [\<lparr>InstallSpec.ID = ''widget'', Version = ''1.0.0'', File = ''a.txt''\<rparr> \<mapsto> ''a1'',
               \<lparr>InstallSpec.ID = ''widget'', Version = ''1.0.0'', File = ''b.txt''\<rparr> \<mapsto> ''b1'',
               \<lparr>InstallSpec.ID = ''widget'', Version = ''2.0.0'', File = ''b.txt''\<rparr> \<mapsto> ''b2'',
               \<lparr>InstallSpec.ID = ''widget'', Version = ''2.0.0'', File = ''c.txt''\<rparr> \<mapsto> ''c2'']\<rparr>"

definition exampleManager :: "(fsys, memory) Manager" where
  "exampleManager = \<lparr>local = fs_Repository exampleYaml, remote = memory_Repository\<rparr>"

text \<open>A local store with nothing installed, and one with version 1.0.0 of the widget.\<close>

definition emptyWorld :: "(fsys, memory) world" where
  "emptyWorld = \<lparr>local_store = [], remote_store = exampleSource, trace = []\<rparr>"

definition widget1Store :: fsys where
  "widget1Store =
     [((''widget'', ''a.txt''), ''a1''), ((''widget'', ''b.txt''), ''b1''),
      ((''widget'', ''manifest''), ''widget@1.0.0'')]"

definition widget1World :: "(fsys, memory) world" where
  "widget1World = \<lparr>local_store = widget1Store, remote_store = exampleSource, trace = []\<rparr>"

text \<open>A source with an empty catalog, against the store with the widget.\<close>

definition unknownWorld :: "(fsys, memory) world" where
  "unknownWorld = \<lparr>local_store = widget1Store,
     remote_store = \<lparr>Index = Map.empty, Manifests = Map.empty, Files = Map.empty\<rparr>,
     trace = []\<rparr>"

text \<open>The store with version 2.0.0 of the widget, the current version of the source.\<close>

definition widget2Store :: fsys where
  "widget2Store =
     [((''widget'', ''b.txt''), ''b2''), ((''widget'', ''c.txt''), ''c2''),
      ((''widget'', ''manifest''), ''widget@2.0.0'')]"

definition widget2World :: "(fsys, memory) world" where
  "widget2World = \<lparr>local_store = widget2Store, remote_store = exampleSource, trace = []\<rparr>"









text \<open>
  A pak whose manifest lists its one file twice, installed in a store of its own.
\<close>

definition twice :: Manifest where
  "twice = \<lparr>Manifest.ID = ''twice'', Name = ''Twice'', Version = ''1.0.0'', Date = 30,
     Files = [''a.txt'', ''a.txt'']\<rparr>"

definition twiceManager :: "(fsys, memory) Manager" where
  "twiceManager =
     \<lparr>local = fs_Repository (tableYaml [twice] Map.empty), remote = memory_Repository\<rparr>"

definition twiceWorld :: "(fsys, memory) world" where
  "twiceWorld =
     \<lparr>local_store = [((''twice'', ''a.txt''), ''a''), ((''twice'', ''manifest''), ''twice@1.0.0'')],
      remote_store = exampleSource, trace = []\<rparr>"

section \<open>Auxiliary notions\<close>

text \<open>
  Two worlds have the same stores when they differ at most in their traces; two results of a
  manager routine agree when the outcomes are equal and the worlds have the same stores.
\<close>

definition sameStores :: "('l, 'r) world \<Rightarrow> ('l, 'r) world \<Rightarrow> bool" where
  "sameStores w v = (local_store w = local_store v \<and> remote_store w = remote_store v)"

definition agree :: "'a outcome \<times> ('l, 'r) world \<Rightarrow> 'a outcome \<times> ('l, 'r) world \<Rightarrow> bool" where
  "agree p q = (fst p = fst q \<and> sameStores (snd p) (snd q))"

text \<open>A manager routine only appends to the trace.\<close>

definition grows :: "('l, 'r) world \<Rightarrow> ('l, 'r) world \<Rightarrow> bool" where
  "grows w w' = (\<exists>evs. trace w' = trace w @ evs)"


section \<open>Unfolding rules\<close>

lemmas example_defs = exampleManager_def emptyWorld_def widget1World_def widget1Store_def
  exampleSource_def exampleYaml_def tableYaml_def exampleIndex_def widgetSpec_def widget1_def
  widget2_def manifestTag_def memory_Repository_def fs_Repository_def

lemmas manager_defs = install_def installResolved_def resolveVersion_def logUpgrade_def replaceInstalled_def
  alreadyInstalled_def uninstall_def downloadFile_def call_local_def call_remote_def logger_def
  Upgrade_def Upgradable_def

lemmas fs_defs = fs_GetInstalledManifest_def fs_getManifest_def os_Open_def os_Remove_def
  os_Create_def fs_Write_def fs_WriteManifest_def fs_Delete_def fs_ListInstalled_def
  manifestPath_def filePath_def ManifestPath_def pathString_def quoted_def

lemmas memory_defs = memory_GetSpec_def memory_GetManifest_def memory_GetFile_def memory_List_def

section \<open>The upgrade flag of install\<close>

text \<open>
  Claim C4 says that the upgrade flag of \<^verbatim>\<open>install\<close> changes neither the resulting local store
  nor the returned error. The code does not do this: with nothing installed for the id, the
  log line of an upgrade dereferences the nil \<^verbatim>\<open>existing\<close> and the routine panics, before the
  manifest is fetched, while with the flag clear the same request installs the pak. The
  theorem runs both on an empty local store, and \<^verbatim>\<open>Upgrade\<close> with the same spec.
\<close>

theorem install_upgrade_flag_panics:
  "fst (install exampleManager \<lparr>InstallSpec.ID = ''widget'', Version = []\<rparr> True emptyWorld) = Panic
   \<and> local_store (snd (install exampleManager
         \<lparr>InstallSpec.ID = ''widget'', Version = []\<rparr> True emptyWorld)) = []
   \<and> fst (install exampleManager \<lparr>InstallSpec.ID = ''widget'', Version = []\<rparr> False emptyWorld)
       = Return ()
   \<and> local_store (snd (install exampleManager
         \<lparr>InstallSpec.ID = ''widget'', Version = []\<rparr> False emptyWorld))
       = [((''widget'', ''b.txt''), ''b2''), ((''widget'', ''c.txt''), ''c2''),
          ((''widget'', ''manifest''), ''widget@2.0.0'')]
   \<and> fst (Upgrade exampleManager [\<lparr>InstallSpec.ID = ''widget'', Version = []\<rparr>] emptyWorld)
       = Panic"
  by (simp add: example_defs manager_defs fs_defs memory_defs)

section \<open>Upgradable\<close>








section \<open>Install\<close>

lemma Install_append:
  "Install m (xs @ ys) w =
     (case Install m xs w of
        (Return u, w1) \<Rightarrow> Install m ys w1
      | (Fail e, w1) \<Rightarrow> (Fail e, w1)
      | (Panic, w1) \<Rightarrow> (Panic, w1))"
  by (induction xs arbitrary: w) (auto split: prod.splits outcome.splits)

lemma Install_success_each:
  "fst (Install m (xs @ y # zs) w) = Return () \<Longrightarrow>
     \<exists>w1. Install m xs w = (Return (), w1)
       \<and> fst (install m y False
             (logger (Infof (''Installing '' @ InstallSpec.ID y @ ''@'' @ InstallSpec.Version y)) w1))
           = Return ()"
  by (auto simp: Install_append split: prod.splits outcome.splits)

text \<open>
  Claim C6: \<^verbatim>\<open>Install\<close> runs its specs in order. When the specs before one have succeeded and
  that one fails with \<open>e\<close>, the call returns \<open>e\<close> wrapped with the id and version of the failing
  spec, and the world it leaves is the world the failing \<^verbatim>\<open>install\<close> left: what the earlier
  specs did is kept, and no call or log line is issued for a later spec. When the call
  succeeds, every spec has succeeded.
\<close>

theorem Install_batch:
  "(Install m xs w = (Return (), w1)
      \<and> install m y False
           (logger (Infof (''Installing '' @ InstallSpec.ID y @ ''@'' @ InstallSpec.Version y)) w1)
         = (Fail e, w2)
      \<longrightarrow> Install m (xs @ y # zs) w =
            (Fail (Errorf (''installing pak '' @ InstallSpec.ID y @ ''@'' @ InstallSpec.Version y) e),
             w2))
   \<and> (fst (Install m specs w) = Return ()
      \<longrightarrow> (\<forall>xs y zs. specs = xs @ y # zs
            \<longrightarrow> (\<exists>w1. Install m xs w = (Return (), w1)
                 \<and> fst (install m y False
                       (logger (Infof (''Installing '' @ InstallSpec.ID y @ ''@''
                           @ InstallSpec.Version y)) w1)) = Return ())))
   \<and> Install m (xs @ ys) w =
        (case Install m xs w of
           (Return u, w1) \<Rightarrow> Install m ys w1
         | (Fail e, w1) \<Rightarrow> (Fail e, w1)
         | (Panic, w1) \<Rightarrow> (Panic, w1))"
proof (intro conjI impI allI)
  assume "Install m xs w = (Return (), w1)
      \<and> install m y False
           (logger (Infof (''Installing '' @ InstallSpec.ID y @ ''@'' @ InstallSpec.Version y)) w1)
         = (Fail e, w2)"
  then show "Install m (xs @ y # zs) w =
            (Fail (Errorf (''installing pak '' @ InstallSpec.ID y @ ''@'' @ InstallSpec.Version y) e),
             w2)"
    by (simp add: Install_append)
next
  fix xs y zs
  assume "fst (Install m specs w) = Return ()" and "specs = xs @ y # zs"
  then show "\<exists>w1. Install m xs w = (Return (), w1)
                 \<and> fst (install m y False
                       (logger (Infof (''Installing '' @ InstallSpec.ID y @ ''@''
                           @ InstallSpec.Version y)) w1)) = Return ()"
    using Install_success_each [of m xs y zs w] by simp
next
  show "Install m (xs @ ys) w =
        (case Install m xs w of
           (Return u, w1) \<Rightarrow> Install m ys w1
         | (Fail e, w1) \<Rightarrow> (Fail e, w1)
         | (Panic, w1) \<Rightarrow> (Panic, w1))"
    by (rule Install_append)
qed

theorem Install_batch_witness:
  "fst (Install exampleManager [\<lparr>InstallSpec.ID = ''widget'', Version = ''2.0.0''\<rparr>] emptyWorld)
     = Return ()
   \<and> fst (install exampleManager \<lparr>InstallSpec.ID = ''gadget'', Version = []\<rparr> False
         (logger (Infof ''Installing gadget@'')
            (snd (Install exampleManager
               [\<lparr>InstallSpec.ID = ''widget'', Version = ''2.0.0''\<rparr>] emptyWorld))))
     = Fail ErrSpecNotFound
   \<and> fst (Install exampleManager
         [\<lparr>InstallSpec.ID = ''widget'', Version = ''2.0.0''\<rparr>,
          \<lparr>InstallSpec.ID = ''gadget'', Version = []\<rparr>,
          \<lparr>InstallSpec.ID = ''widget'', Version = ''1.0.0''\<rparr>] emptyWorld)
     = Fail (Errorf ''installing pak gadget@'' ErrSpecNotFound)
   \<and> local_store (snd (Install exampleManager
         [\<lparr>InstallSpec.ID = ''widget'', Version = ''2.0.0''\<rparr>,
          \<lparr>InstallSpec.ID = ''gadget'', Version = []\<rparr>,
          \<lparr>InstallSpec.ID = ''widget'', Version = ''1.0.0''\<rparr>] emptyWorld))
     = widget2Store
   \<and> trace (snd (Install exampleManager
         [\<lparr>InstallSpec.ID = ''widget'', Version = ''2.0.0''\<rparr>,
          \<lparr>InstallSpec.ID = ''gadget'', Version = []\<rparr>,
          \<lparr>InstallSpec.ID = ''widget'', Version = ''1.0.0''\<rparr>] emptyWorld))
     = [Infof ''Installing widget@2.0.0'', Call_GetInstalledManifest ''widget'',
        Call_GetManifest ''widget'' ''2.0.0'',
        Call_GetFile ''widget'' ''2.0.0'' ''b.txt'', Call_Write ''widget'' ''2.0.0'' ''b.txt'',
        Call_GetFile ''widget'' ''2.0.0'' ''c.txt'', Call_Write ''widget'' ''2.0.0'' ''c.txt'',
        Call_WriteManifest widget2,
        Infof ''Installing gadget@'', Call_GetInstalledManifest ''gadget'',
        Call_GetSpec ''gadget'']
   \<and> fst (install exampleManager \<lparr>InstallSpec.ID = ''widget'', Version = ''2.0.0''\<rparr> False
         (logger (Infof ''Installing widget@2.0.0'') emptyWorld)) = Return ()"
proof -
  let ?a = "\<lparr>InstallSpec.ID = ''widget'', Version = ''2.0.0''\<rparr>"
  let ?y = "\<lparr>InstallSpec.ID = ''gadget'', Version = []\<rparr>"
  let ?z = "\<lparr>InstallSpec.ID = ''widget'', Version = ''1.0.0''\<rparr>"
  let ?w1 = "snd (Install exampleManager [?a] emptyWorld)"
  let ?w2 = "snd (install exampleManager ?y False (logger (Infof ''Installing gadget@'') ?w1))"
  have w1: "Install exampleManager [?a] emptyWorld =
      (Return (), \<lparr>local_store = widget2Store, remote_store = exampleSource,
         trace = [Infof ''Installing widget@2.0.0'', Call_GetInstalledManifest ''widget'',
        Call_GetManifest ''widget'' ''2.0.0'',
        Call_GetFile ''widget'' ''2.0.0'' ''b.txt'', Call_Write ''widget'' ''2.0.0'' ''b.txt'',
        Call_GetFile ''widget'' ''2.0.0'' ''c.txt'', Call_Write ''widget'' ''2.0.0'' ''c.txt'',
        Call_WriteManifest widget2]\<rparr>)"
    by (simp add: example_defs manager_defs fs_defs memory_defs widget2Store_def)
  have w2: "install exampleManager ?y False (logger (Infof ''Installing gadget@'') ?w1) =
      (Fail ErrSpecNotFound, \<lparr>local_store = widget2Store, remote_store = exampleSource,
         trace = [Infof ''Installing widget@2.0.0'', Call_GetInstalledManifest ''widget'',
        Call_GetManifest ''widget'' ''2.0.0'',
        Call_GetFile ''widget'' ''2.0.0'' ''b.txt'', Call_Write ''widget'' ''2.0.0'' ''b.txt'',
        Call_GetFile ''widget'' ''2.0.0'' ''c.txt'', Call_Write ''widget'' ''2.0.0'' ''c.txt'',
        Call_WriteManifest widget2,
        Infof ''Installing gadget@'', Call_GetInstalledManifest ''gadget'',
        Call_GetSpec ''gadget'']\<rparr>)"
    unfolding w1
    by (simp add: example_defs manager_defs fs_defs memory_defs widget2Store_def)
  have h: "Install exampleManager [?a] emptyWorld = (Return (), ?w1)
      \<and> install exampleManager ?y False
           (logger (Infof (''Installing '' @ InstallSpec.ID ?y @ ''@'' @ InstallSpec.Version ?y)) ?w1)
         = (Fail ErrSpecNotFound, ?w2)"
    using w1 w2 by simp
  have "Install exampleManager ([?a] @ ?y # [?z]) emptyWorld =
      (Fail (Errorf (''installing pak '' @ InstallSpec.ID ?y @ ''@'' @ InstallSpec.Version ?y)
         ErrSpecNotFound), ?w2)"
    using Install_batch [of exampleManager "[?a]" emptyWorld ?w1 ?y ErrSpecNotFound ?w2 "[?z]"] h
    by blast
  moreover have "fst (install exampleManager ?a False
      (logger (Infof ''Installing widget@2.0.0'') emptyWorld)) = Return ()"
    using Install_batch [of exampleManager "[]" emptyWorld _ ?a _ _ "[]" "[?a]"] w1
    by fastforce
  ultimately show ?thesis
    using w1 w2 by simp
qed

text \<open>
  Claim C2: with \<open>pid\<close> installed at version \<open>v\<close>, \<^verbatim>\<open>Install\<close> of \<open>pid\<close> at the explicit
  version \<open>v\<close> succeeds; it only looks the installed manifest up, so the source is not
  queried and the local store is left as it was. With an empty version and a source whose
  current version is the installed one, \<^verbatim>\<open>Install\<close> succeeds after the one \<^verbatim>\<open>GetSpec\<close> that
  resolves the version, and the local store is left as it was.
\<close>

theorem Install_same_version_noop:
  assumes "pid \<noteq> []"
    and "GetInstalledManifest (local m) pid (local_store w)
           = (Return (Some existing), local_store w)"
  shows "(v \<noteq> [] \<and> Manifest.Version existing = v \<longrightarrow>
            Install m [\<lparr>InstallSpec.ID = pid, Version = v\<rparr>] w =
              (Return (),
               w\<lparr>trace := trace w @
                  [Infof (''Installing '' @ pid @ ''@'' @ v),
                   Call_GetInstalledManifest pid,
                   Debugf (''pak '' @ pid @ ''@'' @ v @ '' already installed'')]\<rparr>))
       \<and> (GetSpec (remote m) pid (remote_store w) = (Return (Some spec), r1)
            \<and> CurrentVersion spec = Manifest.Version existing \<longrightarrow>
            Install m [\<lparr>InstallSpec.ID = pid, Version = []\<rparr>] w =
              (Return (),
               w\<lparr>remote_store := r1,
                 trace := trace w @
                  [Infof (''Installing '' @ pid @ ''@''),
                   Call_GetInstalledManifest pid,
                   Call_GetSpec pid,
                   Debugf (''pak '' @ pid @ ''@'' @ CurrentVersion spec @ '' already installed'')]\<rparr>))"
  using assms
  by (simp add: install_def installResolved_def resolveVersion_def alreadyInstalled_def
      call_local_def call_remote_def logger_def)

theorem Install_same_version_noop_witness:
  "GetInstalledManifest (local exampleManager) ''widget'' (local_store widget1World)
     = (Return (Some widget1), local_store widget1World)
   \<and> Manifest.Version widget1 = ''1.0.0''
   \<and> Install exampleManager [\<lparr>InstallSpec.ID = ''widget'', Version = ''1.0.0''\<rparr>] widget1World
     = (Return (),
        widget1World\<lparr>trace :=
          [Infof ''Installing widget@1.0.0'', Call_GetInstalledManifest ''widget'',
           Debugf ''pak widget@1.0.0 already installed'']\<rparr>)
   \<and> GetInstalledManifest (local exampleManager) ''widget'' (local_store widget2World)
     = (Return (Some widget2), local_store widget2World)
   \<and> GetSpec (remote exampleManager) ''widget'' (remote_store widget2World)
     = (Return (Some widgetSpec), exampleSource)
   \<and> CurrentVersion widgetSpec = Manifest.Version widget2
   \<and> Install exampleManager [\<lparr>InstallSpec.ID = ''widget'', Version = []\<rparr>] widget2World
     = (Return (),
        widget2World\<lparr>trace :=
          [Infof ''Installing widget@'', Call_GetInstalledManifest ''widget'',
           Call_GetSpec ''widget'', Debugf ''pak widget@2.0.0 already installed'']\<rparr>)"
proof -
  have p: "''widget'' \<noteq> []" by simp
  have h1: "GetInstalledManifest (local exampleManager) ''widget'' (local_store widget1World)
     = (Return (Some widget1), local_store widget1World)"
    by (simp add: example_defs fs_defs)
  have h2: "GetInstalledManifest (local exampleManager) ''widget'' (local_store widget2World)
     = (Return (Some widget2), local_store widget2World)"
    by (simp add: example_defs fs_defs widget2World_def widget2Store_def)
  have h3: "GetSpec (remote exampleManager) ''widget'' (remote_store widget2World)
     = (Return (Some widgetSpec), exampleSource)"
    by (simp add: example_defs memory_defs widget2World_def)
  have v1: "Manifest.Version widget1 = ''1.0.0''" by (simp add: widget1_def)
  have v2: "CurrentVersion widgetSpec = Manifest.Version widget2"
    by (simp add: widget2_def widgetSpec_def)
  have a: "Install exampleManager [\<lparr>InstallSpec.ID = ''widget'', Version = ''1.0.0''\<rparr>] widget1World
     = (Return (),
        widget1World\<lparr>trace :=
          [Infof ''Installing widget@1.0.0'', Call_GetInstalledManifest ''widget'',
           Debugf ''pak widget@1.0.0 already installed'']\<rparr>)"
    using Install_same_version_noop [OF p h1, of "''1.0.0''"] v1
    by (simp add: widget1World_def)
  have b: "Install exampleManager [\<lparr>InstallSpec.ID = ''widget'', Version = []\<rparr>] widget2World
     = (Return (),
        widget2World\<lparr>trace :=
          [Infof ''Installing widget@'', Call_GetInstalledManifest ''widget'',
           Call_GetSpec ''widget'', Debugf ''pak widget@2.0.0 already installed'']\<rparr>)"
    using Install_same_version_noop [OF p h2, of _ widgetSpec exampleSource] h3 v2
    by (simp add: widget2World_def widgetSpec_def)
  show ?thesis
    using h1 h2 h3 v1 v2 a b by blast
qed

section \<open>The trace\<close>

text \<open>
  What a manager routine returns and does to the stores does not depend on the trace it
  starts with, and it only appends to the trace.
\<close>

lemma agree_call_local:
  "sameStores w v \<Longrightarrow> agree (call_local ev f w) (call_local ev f v)"
  by (simp add: agree_def sameStores_def call_local_def split: prod.splits)

lemma agree_call_remote:
  "sameStores w v \<Longrightarrow> agree (call_remote ev f w) (call_remote ev f v)"
  by (simp add: agree_def sameStores_def call_remote_def split: prod.splits)

lemma sameStores_logger:
  "sameStores w v \<Longrightarrow> sameStores (logger ev w) (logger ev' v)"
  by (simp add: sameStores_def logger_def)

lemma agreeD:
  "agree p q \<Longrightarrow> p = (r, w) \<Longrightarrow> \<exists>v. q = (r, v) \<and> sameStores w v"
  by (cases q) (auto simp: agree_def)

lemma agree_downloadFile:
  assumes "sameStores w v"
  shows "agree (downloadFile m pid version file w) (downloadFile m pid version file v)"
proof -
  obtain r w1 where a: "call_remote (Call_GetFile pid version file) (GetFile (remote m) pid version file) w = (r, w1)"
    by (cases "call_remote (Call_GetFile pid version file) (GetFile (remote m) pid version file) w")
  from agreeD [OF agree_call_remote [OF assms] a]
  obtain v1 where b: "call_remote (Call_GetFile pid version file) (GetFile (remote m) pid version file) v = (r, v1)"
    and s1: "sameStores w1 v1" by blast
  show ?thesis
  proof (cases r)
    case (Return x)
    show ?thesis
    proof (cases x)
      case None
      with Return a b s1 show ?thesis by (simp add: downloadFile_def agree_def)
    next
      case (Some rc)
      obtain r2 w2 where c: "call_local (Call_Write pid version file) (Write (local m) pid version file rc) w1 = (r2, w2)"
        by (cases "call_local (Call_Write pid version file) (Write (local m) pid version file rc) w1")
      from agreeD [OF agree_call_local [OF s1] c]
      obtain v2 where d: "call_local (Call_Write pid version file) (Write (local m) pid version file rc) v1 = (r2, v2)"
        and s2: "sameStores w2 v2" by blast
      from Return Some a b c d s2 show ?thesis
        by (cases r2) (simp_all add: downloadFile_def agree_def)
    qed
  next
    case (Fail e)
    with a b s1 show ?thesis by (simp add: downloadFile_def agree_def)
  next
    case Panic
    with a b s1 show ?thesis by (simp add: downloadFile_def agree_def)
  qed
qed

lemma agree_downloadFiles:
  "sameStores w v \<Longrightarrow>
     agree (downloadFiles m pid version files w) (downloadFiles m pid version files v)"
proof (induction files arbitrary: w v)
  case Nil
  then show ?case by (simp add: agree_def)
next
  case (Cons f fs)
  obtain r w1 where a: "downloadFile m pid version f w = (r, w1)"
    by (cases "downloadFile m pid version f w")
  from agreeD [OF agree_downloadFile [OF Cons.prems] a]
  obtain v1 where b: "downloadFile m pid version f v = (r, v1)" and s1: "sameStores w1 v1"
    by blast
  show ?case
  proof (cases r)
    case (Return u)
    with a b Cons.IH [OF s1] show ?thesis by simp
  next
    case (Fail e)
    with a b s1 show ?thesis by (simp add: agree_def)
  next
    case Panic
    with a b s1 show ?thesis by (simp add: agree_def)
  qed
qed

lemma agree_uninstall:
  assumes "sameStores w v"
  shows "agree (uninstall m pid w) (uninstall m pid v)"
proof -
  obtain r w1 where a: "call_local (Call_Delete pid) (Delete (local m) pid) w = (r, w1)"
    by (cases "call_local (Call_Delete pid) (Delete (local m) pid) w")
  from agreeD [OF agree_call_local [OF assms] a]
  obtain v1 where b: "call_local (Call_Delete pid) (Delete (local m) pid) v = (r, v1)"
    and s1: "sameStores w1 v1" by blast
  from a b s1 show ?thesis
    by (cases r) (simp_all add: uninstall_def agree_def)
qed

lemma agree_logUpgrade:
  "sameStores w v \<Longrightarrow>
     agree (logUpgrade toInstall existing upgrade w) (logUpgrade toInstall existing upgrade v)"
  by (simp add: logUpgrade_def agree_def sameStores_logger split: option.splits)

lemma agree_replaceInstalled:
  assumes "sameStores w v"
  shows "agree (replaceInstalled m toInstall existing w) (replaceInstalled m toInstall existing v)"
proof -
  let ?pid = "InstallSpec.ID toInstall" and ?ver = "InstallSpec.Version toInstall"
  obtain r w1 where a:
    "call_remote (Call_GetManifest ?pid ?ver) (GetManifest (remote m) ?pid ?ver) w = (r, w1)"
    by (cases "call_remote (Call_GetManifest ?pid ?ver) (GetManifest (remote m) ?pid ?ver) w")
  from agreeD [OF agree_call_remote [OF assms] a]
  obtain v1 where b:
    "call_remote (Call_GetManifest ?pid ?ver) (GetManifest (remote m) ?pid ?ver) v = (r, v1)"
    and s1: "sameStores w1 v1" by blast
  show ?thesis
  proof (cases r)
    case (Return mo)
    show ?thesis
    proof (cases mo)
      case None
      with Return a b s1 show ?thesis by (simp add: replaceInstalled_def agree_def)
    next
      case (Some manifest)
      let ?un = "\<lambda>w1. (case existing of
                   None \<Rightarrow> (Return (), w1)
                 | Some ex \<Rightarrow>
                     (case uninstall m ?pid w1 of
                        (Fail e, w2) \<Rightarrow> (Fail (Errorf ''uninstalling existing version'' e), w2)
                      | (Panic, w2) \<Rightarrow> (Panic, w2)
                      | (Return u, w2) \<Rightarrow> (Return (), w2)))"
      have un: "agree (?un w1) (?un v1)"
      proof (cases existing)
        case None
        with s1 show ?thesis by (simp add: agree_def)
      next
        case (Some ex)
        obtain r2 w2 where c: "uninstall m ?pid w1 = (r2, w2)" by (cases "uninstall m ?pid w1")
        from agreeD [OF agree_uninstall [OF s1] c]
        obtain v2 where d: "uninstall m ?pid v1 = (r2, v2)" and s2: "sameStores w2 v2" by blast
        from Some c d s2 show ?thesis by (cases r2) (simp_all add: agree_def)
      qed
      obtain r2 w2 where c: "?un w1 = (r2, w2)" by (cases "?un w1")
      from agreeD [OF un c] obtain v2 where d: "?un v1 = (r2, v2)" and s2: "sameStores w2 v2"
        by blast
      show ?thesis
      proof (cases r2)
        case (Return u)
        obtain r3 w3 where e: "downloadFiles m ?pid ?ver (Manifest.Files manifest) w2 = (r3, w3)"
          by (cases "downloadFiles m ?pid ?ver (Manifest.Files manifest) w2")
        from agreeD [OF agree_downloadFiles [OF s2] e]
        obtain v3 where f: "downloadFiles m ?pid ?ver (Manifest.Files manifest) v2 = (r3, v3)"
          and s3: "sameStores w3 v3" by blast
        show ?thesis
        proof (cases r3)
          case (Return u')
          obtain r4 w4 where g: "call_local (Call_WriteManifest manifest) (WriteManifest (local m) manifest) w3 = (r4, w4)"
            by (cases "call_local (Call_WriteManifest manifest) (WriteManifest (local m) manifest) w3")
          from agreeD [OF agree_call_local [OF s3] g]
          obtain v4 where h: "call_local (Call_WriteManifest manifest) (WriteManifest (local m) manifest) v3 = (r4, v4)"
            and s4: "sameStores w4 v4" by blast
          from \<open>r = Return mo\<close> Some \<open>r2 = Return u\<close> Return a b c d e f g h s4 show ?thesis
            by (cases r4) (simp_all add: replaceInstalled_def agree_def)
        next
          case (Fail x)
          with \<open>r = Return mo\<close> Some \<open>r2 = Return u\<close> a b c d e f s3 show ?thesis
            by (simp add: replaceInstalled_def agree_def)
        next
          case Panic
          with \<open>r = Return mo\<close> Some \<open>r2 = Return u\<close> a b c d e f s3 show ?thesis
            by (simp add: replaceInstalled_def agree_def)
        qed
      next
        case (Fail x)
        with \<open>r = Return mo\<close> Some a b c d s2 show ?thesis
          by (simp add: replaceInstalled_def agree_def)
      next
        case Panic
        with \<open>r = Return mo\<close> Some a b c d s2 show ?thesis
          by (simp add: replaceInstalled_def agree_def)
      qed
    qed
  next
    case (Fail e)
    with a b s1 show ?thesis by (simp add: replaceInstalled_def agree_def)
  next
    case Panic
    with a b s1 show ?thesis by (simp add: replaceInstalled_def agree_def)
  qed
qed

lemma agree_installResolved:
  assumes "sameStores w v"
  shows "agree (installResolved m toInstall existing upgrade w)
           (installResolved m toInstall existing upgrade v)"
proof (cases "alreadyInstalled existing toInstall")
  case True
  with assms show ?thesis
    by (simp add: installResolved_def agree_def sameStores_logger)
next
  case False
  obtain r w1 where a: "logUpgrade toInstall existing upgrade w = (r, w1)"
    by (cases "logUpgrade toInstall existing upgrade w")
  from agreeD [OF agree_logUpgrade [OF assms] a]
  obtain v1 where b: "logUpgrade toInstall existing upgrade v = (r, v1)"
    and s1: "sameStores w1 v1" by blast
  from False a b s1 agree_replaceInstalled [OF s1, of m toInstall existing] show ?thesis
    by (cases r) (simp_all add: installResolved_def agree_def)
qed

lemma grows_refl: "grows w w"
  by (simp add: grows_def)

lemma grows_trans: "grows w v \<Longrightarrow> grows v u \<Longrightarrow> grows w u"
  by (auto simp: grows_def)

lemma grows_call_local: "grows w (snd (call_local ev f w))"
  by (simp add: grows_def call_local_def split: prod.splits)

lemma grows_call_remote: "grows w (snd (call_remote ev f w))"
  by (simp add: grows_def call_remote_def split: prod.splits)

lemma grows_logger: "grows w (logger ev w)"
  by (simp add: grows_def logger_def)

lemma grows_downloadFile: "grows w (snd (downloadFile m pid version f w))"
  by (auto simp: grows_def downloadFile_def call_local_def call_remote_def
      split: prod.splits outcome.splits option.splits)

lemma grows_downloadFiles: "grows w (snd (downloadFiles m pid version fs w))"
proof (induction fs arbitrary: w)
  case Nil
  show ?case by (simp add: grows_refl)
next
  case (Cons f fs)
  obtain r w1 where a: "downloadFile m pid version f w = (r, w1)"
    by (cases "downloadFile m pid version f w")
  have g: "grows w w1" using grows_downloadFile [of w m pid version f] a by simp
  show ?case
  proof (cases r)
    case (Return u)
    with a g Cons.IH [of w1] show ?thesis by (auto intro: grows_trans)
  next
    case (Fail e)
    with a g show ?thesis by simp
  next
    case Panic
    with a g show ?thesis by simp
  qed
qed

lemma grows_uninstall: "grows w (snd (uninstall m pid w))"
  by (auto simp: grows_def uninstall_def call_local_def split: prod.splits outcome.splits)

lemma grows_logUpgrade: "grows w (snd (logUpgrade toInstall existing upgrade w))"
  by (auto simp: grows_def logUpgrade_def logger_def split: option.splits)

lemma grows_replaceInstalled: "grows w (snd (replaceInstalled m toInstall existing w))"
proof -
  let ?pid = "InstallSpec.ID toInstall" and ?ver = "InstallSpec.Version toInstall"
  obtain r w1 where a:
    "call_remote (Call_GetManifest ?pid ?ver) (GetManifest (remote m) ?pid ?ver) w = (r, w1)"
    by (cases "call_remote (Call_GetManifest ?pid ?ver) (GetManifest (remote m) ?pid ?ver) w")
  have g1: "grows w w1"
    using grows_call_remote [of w "Call_GetManifest ?pid ?ver" "GetManifest (remote m) ?pid ?ver"] a
    by simp
  show ?thesis
  proof (cases r)
    case (Return mo)
    show ?thesis
    proof (cases mo)
      case None
      with Return a g1 show ?thesis by (simp add: replaceInstalled_def)
    next
      case (Some manifest)
      let ?un = "\<lambda>w1. (case existing of
                   None \<Rightarrow> (Return (), w1)
                 | Some ex \<Rightarrow>
                     (case uninstall m ?pid w1 of
                        (Fail e, w2) \<Rightarrow> (Fail (Errorf ''uninstalling existing version'' e), w2)
                      | (Panic, w2) \<Rightarrow> (Panic, w2)
                      | (Return u, w2) \<Rightarrow> (Return (), w2)))"
      obtain r2 w2 where c: "?un w1 = (r2, w2)" by (cases "?un w1")
      have "grows w1 w2"
        using c grows_uninstall [of w1 m ?pid]
        by (auto simp: grows_refl split: option.splits prod.splits outcome.splits)
      with g1 have g2: "grows w w2" by (rule grows_trans)
      show ?thesis
      proof (cases r2)
        case (Return u)
        obtain r3 w3 where e: "downloadFiles m ?pid ?ver (Manifest.Files manifest) w2 = (r3, w3)"
          by (cases "downloadFiles m ?pid ?ver (Manifest.Files manifest) w2")
        have "grows w2 w3"
          using grows_downloadFiles [of w2 m ?pid ?ver "Manifest.Files manifest"] e by simp
        with g2 have g3: "grows w w3" by (rule grows_trans)
        show ?thesis
        proof (cases r3)
          case (Return u')
          obtain r4 w4 where g: "call_local (Call_WriteManifest manifest)
              (WriteManifest (local m) manifest) w3 = (r4, w4)"
            by (cases "call_local (Call_WriteManifest manifest)
              (WriteManifest (local m) manifest) w3")
          have "grows w3 w4"
            using grows_call_local [of w3 "Call_WriteManifest manifest"
                "WriteManifest (local m) manifest"] g by simp
          with g3 have "grows w w4" by (rule grows_trans)
          with \<open>r = Return mo\<close> Some \<open>r2 = Return u\<close> Return a c e g show ?thesis
            by (cases r4) (simp_all add: replaceInstalled_def)
        next
          case (Fail x)
          with \<open>r = Return mo\<close> Some \<open>r2 = Return u\<close> a c e g3 show ?thesis
            by (simp add: replaceInstalled_def)
        next
          case Panic
          with \<open>r = Return mo\<close> Some \<open>r2 = Return u\<close> a c e g3 show ?thesis
            by (simp add: replaceInstalled_def)
        qed
      next
        case (Fail x)
        with \<open>r = Return mo\<close> Some a c g2 show ?thesis
          by (simp add: replaceInstalled_def)
      next
        case Panic
        with \<open>r = Return mo\<close> Some a c g2 show ?thesis
          by (simp add: replaceInstalled_def)
      qed
    qed
  next
    case (Fail e)
    with a g1 show ?thesis by (simp add: replaceInstalled_def)
  next
    case Panic
    with a g1 show ?thesis by (simp add: replaceInstalled_def)
  qed
qed

lemma grows_installResolved:
  "grows w (snd (installResolved m toInstall existing upgrade w))"
proof (cases "alreadyInstalled existing toInstall")
  case True
  then show ?thesis by (simp add: installResolved_def grows_logger)
next
  case False
  obtain r w1 where a: "logUpgrade toInstall existing upgrade w = (r, w1)"
    by (cases "logUpgrade toInstall existing upgrade w")
  have g1: "grows w w1" using grows_logUpgrade [of w toInstall existing upgrade] a by simp
  show ?thesis
  proof (cases r)
    case (Return u)
    have "grows w1 (snd (replaceInstalled m toInstall existing w1))"
      by (rule grows_replaceInstalled)
    with g1 have "grows w (snd (replaceInstalled m toInstall existing w1))"
      by (rule grows_trans)
    with False a Return show ?thesis by (simp add: installResolved_def)
  next
    case (Fail e)
    with False a g1 show ?thesis by (simp add: installResolved_def)
  next
    case Panic
    with False a g1 show ?thesis by (simp add: installResolved_def)
  qed
qed

text \<open>
  When a manifest is installed for the id, or its lookup fails, the upgrade flag changes
  neither the outcome of \<^verbatim>\<open>install\<close> nor the stores: only the log line is added.
\<close>

lemma install_upgrade_flag_installed:
  assumes "fst (GetInstalledManifest (local m) (InstallSpec.ID toInstall) (local_store w))
      \<noteq> Return None"
  shows "agree (install m toInstall True w) (install m toInstall False w)"
proof (cases "InstallSpec.ID toInstall = []")
  case True
  then show ?thesis by (simp add: install_def agree_def sameStores_def)
next
  case False
  let ?pid = "InstallSpec.ID toInstall"
  obtain r w1 where a:
    "call_local (Call_GetInstalledManifest ?pid) (GetInstalledManifest (local m) ?pid) w = (r, w1)"
    by (cases "call_local (Call_GetInstalledManifest ?pid) (GetInstalledManifest (local m) ?pid) w")
  from a assms have n: "r \<noteq> Return None"
    by (auto simp: call_local_def split: prod.splits)
  show ?thesis
  proof (cases r)
    case (Return existing)
    with n obtain ex where ex: "existing = Some ex" by (cases existing) auto
    obtain r2 w2 where b: "resolveVersion m toInstall w1 = (r2, w2)"
      by (cases "resolveVersion m toInstall w1")
    show ?thesis
    proof (cases r2)
      case (Return resolved)
      have "agree (installResolved m resolved (Some ex) True w2)
          (installResolved m resolved (Some ex) False w2)"
      proof (cases "alreadyInstalled (Some ex) resolved")
        case True
        then show ?thesis by (simp add: installResolved_def agree_def sameStores_def)
      next
        case False
        have "sameStores (logger (Infof (''Upgrading '' @ InstallSpec.ID resolved @ '' from ''
            @ Manifest.Version ex @ '' to '' @ InstallSpec.Version resolved)) w2) w2"
          by (simp add: sameStores_def logger_def)
        from agree_replaceInstalled [OF this, of m resolved "Some ex"] False
        show ?thesis by (simp add: installResolved_def logUpgrade_def)
      qed
      with False a b \<open>r = Return existing\<close> ex Return show ?thesis
        by (simp add: install_def)
    next
      case (Fail e)
      with False a b \<open>r = Return existing\<close> show ?thesis
        by (simp add: install_def agree_def sameStores_def)
    next
      case Panic
      with False a b \<open>r = Return existing\<close> show ?thesis
        by (simp add: install_def agree_def sameStores_def)
    qed
  next
    case (Fail e)
    with False a show ?thesis by (simp add: install_def agree_def sameStores_def)
  next
    case Panic
    with False a show ?thesis by (simp add: install_def agree_def sameStores_def)
  qed
qed

section \<open>Resolution of the version\<close>

text \<open>
  Claim C3: for a spec with a non-empty id and an empty version, \<^verbatim>\<open>install\<close> takes the version
  from the \<^verbatim>\<open>CurrentVersion\<close> of the spec that \<^verbatim>\<open>GetSpec\<close> returns for the id: its outcome and the
  local store it leaves are those of \<^verbatim>\<open>install\<close> with that version given, run on the source as
  \<^verbatim>\<open>GetSpec\<close> left it. When the installed manifest has been looked up, \<^verbatim>\<open>GetSpec\<close> is the next
  call, before any other. When \<^verbatim>\<open>GetSpec\<close> returns nil for the id, \<^verbatim>\<open>install\<close> fails with
  \<^verbatim>\<open>ErrSpecNotFound\<close> after these two calls and the local store is as it was.
\<close>

theorem install_resolves_version:
  assumes "pid \<noteq> []"
  shows "(GetSpec (remote m) pid (remote_store w) = (Return (Some spec), r1)
          \<and> CurrentVersion spec \<noteq> [] \<longrightarrow>
            fst (install m \<lparr>InstallSpec.ID = pid, Version = []\<rparr> upgrade w)
              = fst (install m \<lparr>InstallSpec.ID = pid, Version = CurrentVersion spec\<rparr> upgrade
                      (w\<lparr>remote_store := r1\<rparr>))
          \<and> local_store (snd (install m \<lparr>InstallSpec.ID = pid, Version = []\<rparr> upgrade w))
              = local_store (snd (install m
                      \<lparr>InstallSpec.ID = pid, Version = CurrentVersion spec\<rparr> upgrade
                      (w\<lparr>remote_store := r1\<rparr>))))
       \<and> (GetInstalledManifest (local m) pid (local_store w) = (Return existing, l1) \<longrightarrow>
            (\<exists>evs. trace (snd (install m \<lparr>InstallSpec.ID = pid, Version = []\<rparr> upgrade w))
               = trace w @ [Call_GetInstalledManifest pid, Call_GetSpec pid] @ evs))
       \<and> (GetInstalledManifest (local m) pid (local_store w) = (Return existing, local_store w)
          \<and> GetSpec (remote m) pid (remote_store w) = (Return None, r1) \<longrightarrow>
            install m \<lparr>InstallSpec.ID = pid, Version = []\<rparr> upgrade w
              = (Fail ErrSpecNotFound,
                 w\<lparr>remote_store := r1,
                   trace := trace w @ [Call_GetInstalledManifest pid, Call_GetSpec pid]\<rparr>))"
proof (intro conjI impI)
  assume h: "GetSpec (remote m) pid (remote_store w) = (Return (Some spec), r1)
          \<and> CurrentVersion spec \<noteq> []"
  let ?cv = "CurrentVersion spec"
  obtain res l1 where li: "GetInstalledManifest (local m) pid (local_store w) = (res, l1)"
    by (cases "GetInstalledManifest (local m) pid (local_store w)")
  let ?wA = "w\<lparr>local_store := l1, remote_store := r1,
      trace := trace w @ [Call_GetInstalledManifest pid, Call_GetSpec pid]\<rparr>"
  let ?wB = "w\<lparr>remote_store := r1, local_store := l1,
      trace := trace w @ [Call_GetInstalledManifest pid]\<rparr>"
  have s: "sameStores ?wA ?wB" by (simp add: sameStores_def)
  have ag: "agree (installResolved m \<lparr>InstallSpec.ID = pid, Version = ?cv\<rparr> ex upgrade ?wA)
      (installResolved m \<lparr>InstallSpec.ID = pid, Version = ?cv\<rparr> ex upgrade ?wB)" for ex
    by (rule agree_installResolved [OF s])
  have "fst (install m \<lparr>InstallSpec.ID = pid, Version = []\<rparr> upgrade w)
              = fst (install m \<lparr>InstallSpec.ID = pid, Version = ?cv\<rparr> upgrade
                      (w\<lparr>remote_store := r1\<rparr>))
          \<and> local_store (snd (install m \<lparr>InstallSpec.ID = pid, Version = []\<rparr> upgrade w))
              = local_store (snd (install m
                      \<lparr>InstallSpec.ID = pid, Version = ?cv\<rparr> upgrade
                      (w\<lparr>remote_store := r1\<rparr>)))"
  proof (cases res)
    case (Return ex)
    have l: "install m \<lparr>InstallSpec.ID = pid, Version = []\<rparr> upgrade w
        = installResolved m \<lparr>InstallSpec.ID = pid, Version = ?cv\<rparr> ex upgrade ?wA"
      using assms h li Return
      by (simp add: install_def resolveVersion_def call_local_def call_remote_def)
    have r: "install m \<lparr>InstallSpec.ID = pid, Version = ?cv\<rparr> upgrade (w\<lparr>remote_store := r1\<rparr>)
        = installResolved m \<lparr>InstallSpec.ID = pid, Version = ?cv\<rparr> ex upgrade ?wB"
      using assms h li Return
      by (simp add: install_def resolveVersion_def call_local_def call_remote_def)
    show ?thesis
      using ag [of ex] unfolding l r by (simp add: agree_def sameStores_def)
  next
    case (Fail e)
    with assms h li show ?thesis
      by (simp add: install_def call_local_def)
  next
    case Panic
    with assms h li show ?thesis
      by (simp add: install_def call_local_def)
  qed
  then show "fst (install m \<lparr>InstallSpec.ID = pid, Version = []\<rparr> upgrade w)
              = fst (install m \<lparr>InstallSpec.ID = pid, Version = CurrentVersion spec\<rparr> upgrade
                      (w\<lparr>remote_store := r1\<rparr>))"
    and "local_store (snd (install m \<lparr>InstallSpec.ID = pid, Version = []\<rparr> upgrade w))
              = local_store (snd (install m
                      \<lparr>InstallSpec.ID = pid, Version = CurrentVersion spec\<rparr> upgrade
                      (w\<lparr>remote_store := r1\<rparr>)))"
    by simp_all
next
  assume li: "GetInstalledManifest (local m) pid (local_store w) = (Return existing, l1)"
  obtain rs r1 where gs: "GetSpec (remote m) pid (remote_store w) = (rs, r1)"
    by (cases "GetSpec (remote m) pid (remote_store w)")
  let ?wA = "w\<lparr>local_store := l1, remote_store := r1,
      trace := trace w @ [Call_GetInstalledManifest pid, Call_GetSpec pid]\<rparr>"
  have g: "grows ?wA (snd (installResolved m ti existing upgrade ?wA))" for ti
    by (rule grows_installResolved)
  show "\<exists>evs. trace (snd (install m \<lparr>InstallSpec.ID = pid, Version = []\<rparr> upgrade w))
               = trace w @ [Call_GetInstalledManifest pid, Call_GetSpec pid] @ evs"
  proof (cases rs)
    case (Return so)
    show ?thesis
    proof (cases so)
      case None
      with assms li gs Return show ?thesis
        by (simp add: install_def resolveVersion_def call_local_def call_remote_def)
    next
      case (Some sp)
      with assms li gs Return
        g [of "\<lparr>InstallSpec.ID = pid, Version = CurrentVersion sp\<rparr>"] show ?thesis
        by (simp add: install_def resolveVersion_def call_local_def call_remote_def grows_def)
    qed
  next
    case (Fail e)
    with assms li gs show ?thesis
      by (simp add: install_def resolveVersion_def call_local_def call_remote_def)
  next
    case Panic
    with assms li gs show ?thesis
      by (simp add: install_def resolveVersion_def call_local_def call_remote_def)
  qed
next
  assume "GetInstalledManifest (local m) pid (local_store w) = (Return existing, local_store w)
          \<and> GetSpec (remote m) pid (remote_store w) = (Return None, r1)"
  with assms show "install m \<lparr>InstallSpec.ID = pid, Version = []\<rparr> upgrade w
              = (Fail ErrSpecNotFound,
                 w\<lparr>remote_store := r1,
                   trace := trace w @ [Call_GetInstalledManifest pid, Call_GetSpec pid]\<rparr>)"
    by (simp add: install_def resolveVersion_def call_local_def call_remote_def)
qed

theorem install_resolves_version_witness:
  "GetSpec (remote exampleManager) ''widget'' (remote_store widget1World)
     = (Return (Some widgetSpec), exampleSource)
   \<and> CurrentVersion widgetSpec = ''2.0.0''
   \<and> fst (install exampleManager \<lparr>InstallSpec.ID = ''widget'', Version = []\<rparr> False widget1World)
     = fst (install exampleManager \<lparr>InstallSpec.ID = ''widget'', Version = ''2.0.0''\<rparr> False
         widget1World)
   \<and> local_store (snd (install exampleManager
         \<lparr>InstallSpec.ID = ''widget'', Version = []\<rparr> False widget1World))
     = local_store (snd (install exampleManager
         \<lparr>InstallSpec.ID = ''widget'', Version = ''2.0.0''\<rparr> False widget1World))
   \<and> local_store (snd (install exampleManager
         \<lparr>InstallSpec.ID = ''widget'', Version = []\<rparr> False widget1World)) = widget2Store
   \<and> (\<exists>evs. trace (snd (install exampleManager
         \<lparr>InstallSpec.ID = ''widget'', Version = []\<rparr> False widget1World))
       = [Call_GetInstalledManifest ''widget'', Call_GetSpec ''widget''] @ evs)
   \<and> GetInstalledManifest (local exampleManager) ''widget'' (local_store unknownWorld)
     = (Return (Some widget1), local_store unknownWorld)
   \<and> GetSpec (remote exampleManager) ''widget'' (remote_store unknownWorld)
     = (Return None, remote_store unknownWorld)
   \<and> install exampleManager \<lparr>InstallSpec.ID = ''widget'', Version = []\<rparr> False unknownWorld
     = (Fail ErrSpecNotFound,
        unknownWorld\<lparr>trace := [Call_GetInstalledManifest ''widget'', Call_GetSpec ''widget'']\<rparr>)"
proof -
  have p: "''widget'' \<noteq> []" by simp
  note t = install_resolves_version [OF p]
  have h1: "GetSpec (remote exampleManager) ''widget'' (remote_store widget1World)
     = (Return (Some widgetSpec), exampleSource)"
    by (simp add: example_defs memory_defs)
  have h2: "CurrentVersion widgetSpec = ''2.0.0''" by (simp add: widgetSpec_def)
  have h3: "GetInstalledManifest (local exampleManager) ''widget'' (local_store widget1World)
     = (Return (Some widget1), local_store widget1World)"
    by (simp add: example_defs fs_defs)
  have h4: "GetInstalledManifest (local exampleManager) ''widget'' (local_store unknownWorld)
     = (Return (Some widget1), local_store unknownWorld)"
    by (simp add: example_defs fs_defs unknownWorld_def)
  have h5: "GetSpec (remote exampleManager) ''widget'' (remote_store unknownWorld)
     = (Return None, remote_store unknownWorld)"
    by (simp add: example_defs memory_defs unknownWorld_def)
  have w: "widget1World\<lparr>remote_store := exampleSource\<rparr> = widget1World"
    by (simp add: widget1World_def)
  have a: "fst (install exampleManager \<lparr>InstallSpec.ID = ''widget'', Version = []\<rparr> False
        widget1World)
     = fst (install exampleManager \<lparr>InstallSpec.ID = ''widget'', Version = ''2.0.0''\<rparr> False
         widget1World)
   \<and> local_store (snd (install exampleManager
         \<lparr>InstallSpec.ID = ''widget'', Version = []\<rparr> False widget1World))
     = local_store (snd (install exampleManager
         \<lparr>InstallSpec.ID = ''widget'', Version = ''2.0.0''\<rparr> False widget1World))"
    using t [of exampleManager widget1World widgetSpec exampleSource False] h1 h2 w
    by simp
  have b: "\<exists>evs. trace (snd (install exampleManager
         \<lparr>InstallSpec.ID = ''widget'', Version = []\<rparr> False widget1World))
       = [Call_GetInstalledManifest ''widget'', Call_GetSpec ''widget''] @ evs"
    using t [of exampleManager widget1World _ _ False "Some widget1" "local_store widget1World"] h3
    by (simp add: widget1World_def)
  have c: "install exampleManager \<lparr>InstallSpec.ID = ''widget'', Version = []\<rparr> False unknownWorld
     = (Fail ErrSpecNotFound,
        unknownWorld\<lparr>trace := [Call_GetInstalledManifest ''widget'', Call_GetSpec ''widget'']\<rparr>)"
    using t [of exampleManager unknownWorld _ "remote_store unknownWorld" False "Some widget1"]
      h4 h5
    by (simp add: unknownWorld_def)
  have d: "local_store (snd (install exampleManager
         \<lparr>InstallSpec.ID = ''widget'', Version = []\<rparr> False widget1World)) = widget2Store"
    by (simp add: example_defs manager_defs fs_defs memory_defs widget2Store_def)
  show ?thesis
    using h1 h2 h4 h5 a b c d by blast
qed

section \<open>The index cache of the HTTP repository\<close>










section \<open>Sorted keys and search\<close>















section \<open>The file system repository\<close>








lemma fs_GetInstalledManifest_state: "snd (fs_GetInstalledManifest y pid fs) = fs"
  by (simp add: fs_GetInstalledManifest_def split: outcome.splits)







section \<open>Uninstall\<close>




text \<open>
  When \<^verbatim>\<open>os.Remove\<close> fails on a listed file, \<^verbatim>\<open>Delete\<close> returns the error after it has removed
  the files before it. A manifest that lists a file twice runs into this: the second removal
  finds the file gone, and the manifest stays.
\<close>

lemma Uninstall_listed_twice:
  "Uninstall twiceManager [''twice''] twiceWorld =
     (Fail (Errorf ''uninstalling pak twice'' (Errorf ''deleting local pak''
        (Errorf (''failed to remove file '' @ quoted ''twice/a.txt'')
           (PathError ''remove'' ''twice'' ''a.txt'')))),
      twiceWorld\<lparr>local_store := [((''twice'', ''manifest''), ''twice@1.0.0'')],
        trace := [Infof ''Uninstalling twice'', Call_Delete ''twice'']\<rparr>)"
  by (simp add: twiceManager_def twiceWorld_def twice_def tableYaml_def manifestTag_def
      fs_Repository_def uninstall_def call_local_def logger_def fs_defs)

section \<open>Install over an installed version\<close>







end
